theory Spec2Isabelle
  imports Main
begin

section \<open>Python strings and values\<close>

text \<open>
  A Python \<open>str\<close> is a sequence of Unicode code points, so it is modelled as a list of
  code points (natural numbers); \<open>ustr\<close> turns an ASCII literal into such a list. The
  literals of \<open>streamlit_app.py\<close> that hold characters beyond ASCII spell those code points
  out as numbers.
\<close>

type_synonym pystr = "nat list"

definition ustr :: "string \<Rightarrow> pystr" where
  "ustr s = map of_char s"

text \<open>
  \<open>s.startswith(p)\<close> and \<open>sub in s\<close> on strings.
\<close>

definition startswith :: "pystr \<Rightarrow> pystr \<Rightarrow> bool" where
  "startswith p s = (take (length p) s = p)"

fun contains :: "pystr \<Rightarrow> pystr \<Rightarrow> bool" where
  "contains sub [] = (sub = [])"
| "contains sub (c # cs) = (startswith sub (c # cs) \<or> contains sub cs)"

text \<open>
  \<open>str.strip()\<close> with no argument removes leading and trailing whitespace, where
  whitespace is what \<open>str.isspace\<close> accepts (CPython's \<open>_PyUnicode_IsWhitespace\<close>).
\<close>

definition is_space :: "nat \<Rightarrow> bool" where
  "is_space c =
     ((9 \<le> c \<and> c \<le> 13) \<or> (28 \<le> c \<and> c \<le> 32) \<or> c = 133 \<or> c = 160 \<or> c = 5760
      \<or> (8192 \<le> c \<and> c \<le> 8202) \<or> c = 8232 \<or> c = 8233 \<or> c = 8239 \<or> c = 8287
      \<or> c = 12288)"

definition strip :: "pystr \<Rightarrow> pystr" where
  "strip s = rev (dropWhile is_space (rev (dropWhile is_space s)))"

text \<open>
  A raised exception: its class name, whether it is an instance of \<open>Exception\<close> (as
  opposed to one deriving from \<open>BaseException\<close> only, such as \<open>KeyboardInterrupt\<close> or
  \<open>SystemExit\<close>), and \<open>str(e)\<close>.
\<close>

datatype pyexc = PyExc (exc_class: pystr) (is_Exception: bool) (exc_str: pystr)

text \<open>
  The runtime values the controller inspects. A \<open>dict\<close> is an association list with
  string keys, read with \<open>map_of\<close>; \<open>PObj cls attrs pr\<close> is an instance of class \<open>cls\<close>
  with the attributes \<open>attrs\<close> and none of the container or truth protocols (it is
  truthy and not subscriptable), which is what a LangChain message object is. How an
  object prints is its class's business: \<open>pr\<close> is the exception that \<open>str\<close> and \<open>repr\<close>
  of the object raise, \<open>None\<close> when they return.
\<close>

datatype pyval =
    PNone
  | PBool bool
  | PInt int
  | PStr pystr
  | PList "pyval list"
  | PDict "(pystr \<times> pyval) list"
  | PObj pystr "(pystr \<times> pyval) list" "pyexc option"

text \<open>Truth value testing: \<open>if v:\<close>, \<open>not v\<close>, \<open>v or w\<close>.\<close>

fun truthy :: "pyval \<Rightarrow> bool" where
  "truthy PNone = False"
| "truthy (PBool b) = b"
| "truthy (PInt i) = (i \<noteq> 0)"
| "truthy (PStr s) = (s \<noteq> [])"
| "truthy (PList xs) = (xs \<noteq> [])"
| "truthy (PDict d) = (d \<noteq> [])"
| "truthy (PObj cls attrs pr) = True"

definition py_or :: "pyval \<Rightarrow> pyval \<Rightarrow> pyval" where
  "py_or a b = (if truthy a then a else b)"

fun is_str :: "pyval \<Rightarrow> bool" where
  "is_str (PStr s) = True"
| "is_str v = False"

fun type_name :: "pyval \<Rightarrow> pystr" where
  "type_name PNone = ustr ''NoneType''"
| "type_name (PBool b) = ustr ''bool''"
| "type_name (PInt i) = ustr ''int''"
| "type_name (PStr s) = ustr ''str''"
| "type_name (PList xs) = ustr ''list''"
| "type_name (PDict d) = ustr ''dict''"
| "type_name (PObj cls attrs pr) = cls"

definition not_subscriptable :: "pyval \<Rightarrow> pyexc" where
  "not_subscriptable v =
     PyExc (ustr ''TypeError'') True
       ([39] @ type_name v @ [39] @ ustr '' object is not subscriptable'')"

text \<open>
  \<open>msgs[-1]\<close>: the last element of a list, the last character of a string (a string of
  length one), \<open>IndexError\<close> on an empty one; on a dict it looks up the key \<open>-1\<close>, which a
  dict with string keys does not have (\<open>KeyError\<close>); anything else is not subscriptable
  (\<open>TypeError\<close>).
\<close>

fun getitem_last :: "pyval \<Rightarrow> pyexc + pyval" where
  "getitem_last (PList xs) =
     (if xs = [] then Inl (PyExc (ustr ''IndexError'') True (ustr ''list index out of range''))
      else Inr (last xs))"
| "getitem_last (PStr s) =
     (if s = [] then Inl (PyExc (ustr ''IndexError'') True (ustr ''string index out of range''))
      else Inr (PStr [last s]))"
| "getitem_last (PDict d) = Inl (PyExc (ustr ''KeyError'') True (ustr ''-1''))"
| "getitem_last v = Inl (not_subscriptable v)"

text \<open>
  \<open>str(v)\<close> can raise. Since CPython 3.11 the conversion of an \<open>int\<close> with more than
  \<open>sys.get_int_max_str_digits()\<close> decimal digits (4300 unless configured) raises
  \<open>ValueError\<close>; a list or a dict prints its elements with \<open>repr\<close>, in order, and so
  raises what the first failing element raises; a string, a boolean and \<open>None\<close> always
  print. \<open>print_exc v\<close> is the exception that printing \<open>v\<close> raises, if it raises one.
  (Values nested deeper than the interpreter's recursion limit are left aside.)
\<close>

definition int_max_str_digits :: nat where
  "int_max_str_digits = 4300"

definition int_str_error :: pyexc where
  "int_str_error =
     PyExc (ustr ''ValueError'') True
       (ustr ''Exceeds the limit (4300 digits) for integer string conversion; use sys.set_int_max_str_digits() to increase the limit'')"

fun print_exc :: "pyval \<Rightarrow> pyexc option"
  and print_exc_list :: "pyval list \<Rightarrow> pyexc option"
  and print_exc_items :: "(pystr \<times> pyval) list \<Rightarrow> pyexc option" where
  "print_exc PNone = None"
| "print_exc (PBool b) = None"
| "print_exc (PInt i) =
     (if 10 ^ int_max_str_digits \<le> \<bar>i\<bar> then Some int_str_error else None)"
| "print_exc (PStr s) = None"
| "print_exc (PList xs) = print_exc_list xs"
| "print_exc (PDict d) = print_exc_items d"
| "print_exc (PObj cls attrs pr) = pr"
| "print_exc_list [] = None"
| "print_exc_list (x # xs) =
     (case print_exc x of Some e \<Rightarrow> Some e | None \<Rightarrow> print_exc_list xs)"
| "print_exc_items [] = None"
| "print_exc_items (kv # kvs) =
     (case print_exc (snd kv) of Some e \<Rightarrow> Some e | None \<Rightarrow> print_exc_items kvs)"

section \<open>Chat session controller\<close>

text \<open>
  A history entry is the dict \<open>{"role": ..., "content": ...}\<close>. The content of a user
  entry is the submitted string; the content of an assistant entry is whatever value the
  reply extraction ended with.
\<close>

record message =
  role :: pystr
  content :: pyval

definition user_role :: pystr where
  "user_role = ustr ''user''"

definition assistant_role :: pystr where
  "assistant_role = ustr ''assistant''"

text \<open>The greeting appended when the session has no history yet (U+2019 is 8217).\<close>

definition greeting_text :: pystr where
  "greeting_text =
     ustr ''Hi! I'' @ [8217] @
     ustr ''m GRACIE. Ask me about properties, zip codes, CMAs, or NPV.''"

definition greeting :: message where
  "greeting = \<lparr>role = assistant_role, content = PStr greeting_text\<rparr>"

text \<open>The placeholder of line 122 (U+2705 is 9989).\<close>

definition no_content_text :: pystr where
  "no_content_text = [9989] @ ustr '' (No content returned by the graph.)''"

text \<open>
  The f-string of line 124 (U+26A0 U+FE0F are 9888 and 65039, a backquote is 96):
  the exception is formatted with \<open>str(e)\<close>.
\<close>

definition error_text :: "pyexc \<Rightarrow> pystr" where
  "error_text e =
     [9888, 65039] @ ustr '' Error while running the agent: '' @ [96] @ exc_str e @ [96]"

text \<open>
  \<open>st.markdown(body)\<close> (lines 80, 87 and 128) displays \<open>str(body)\<close>, so it raises what
  printing the body raises.
\<close>

definition markdown :: "pyval \<Rightarrow> pyexc option" where
  "markdown body = print_exc body"

text \<open>
  The message classes of \<open>langchain_core\<close> are not part of the repository. Their
  constructors validate the content they are given and raise when they reject it, so the
  two classes are taken as a parameter: for each class, the exception its constructor
  raises on a content, \<open>None\<close> when it accepts it. An accepted content is stored as it is.
\<close>

record msg_classes =
  human_check :: "pyval \<Rightarrow> pyexc option"
  ai_check :: "pyval \<Rightarrow> pyexc option"

text \<open>
  The outbound message list. The loop of lines 92 to 96 builds the list entry by entry,
  and a constructor that raises ends it; it stands before the \<open>try\<close>, so the exception
  leaves the block. The fallback of line 99 builds a fresh dict per entry.
\<close>

datatype outbound = HumanMessage pyval | AIMessage pyval | DictMessage pystr pyval

fun lc_typed :: "msg_classes \<Rightarrow> message list \<Rightarrow> pyexc + outbound list" where
  "lc_typed mc [] = Inr []"
| "lc_typed mc (m # ms) =
     (if role m = user_role then
        (case human_check mc (content m) of
           Some e \<Rightarrow> Inl e
         | None \<Rightarrow>
             (case lc_typed mc ms of
                Inl e \<Rightarrow> Inl e
              | Inr out \<Rightarrow> Inr (HumanMessage (content m) # out)))
      else if role m = assistant_role then
        (case ai_check mc (content m) of
           Some e \<Rightarrow> Inl e
         | None \<Rightarrow>
             (case lc_typed mc ms of
                Inl e \<Rightarrow> Inl e
              | Inr out \<Rightarrow> Inr (AIMessage (content m) # out)))
      else lc_typed mc ms)"

definition lc_fallback :: "message list \<Rightarrow> outbound list" where
  "lc_fallback h = map (\<lambda>m. DictMessage (role m) (content m)) h"

text \<open>
  \<open>classes\<close> is \<open>None\<close> when the import of line 57 failed (the names are then bound to
  \<open>None\<close> and \<open>HumanMessage and AIMessage\<close> is falsy), and holds the two classes otherwise.
\<close>

definition lc_messages :: "msg_classes option \<Rightarrow> message list \<Rightarrow> pyexc + outbound list" where
  "lc_messages classes h =
     (case classes of Some mc \<Rightarrow> lc_typed mc h | None \<Rightarrow> Inr (lc_fallback h))"

text \<open>
  The compiled graph is opaque: \<open>app.invoke({"messages": lc_messages})\<close> either returns a
  value or raises.
\<close>

datatype invoke_outcome = Returns pyval | Raises pyexc

type_synonym graph = "outbound list \<Rightarrow> invoke_outcome"

text \<open>
  Lines 107 to 117: \<open>hasattr(last, "content")\<close> holds for an object with that
  attribute; \<open>last.get("content")\<close> is \<open>None\<close> for a dict without the key.
\<close>

fun last_content :: "pyval \<Rightarrow> pyval" where
  "last_content (PObj cls attrs pr) =
     (case map_of attrs (ustr ''content'') of Some v \<Rightarrow> v | None \<Rightarrow> PNone)"
| "last_content (PDict d) =
     (case map_of d (ustr ''content'') of Some v \<Rightarrow> v | None \<Rightarrow> PNone)"
| "last_content v = PNone"

fun messages_text :: "pyval \<Rightarrow> pyexc + pyval" where
  "messages_text (PDict d) =
     (case map_of d (ustr ''messages'') of
        None \<Rightarrow> Inr PNone
      | Some msgs \<Rightarrow>
          if truthy msgs then
            (case getitem_last msgs of
               Inl e \<Rightarrow> Inl e
             | Inr l \<Rightarrow> Inr (last_content l))
          else Inr PNone)"
| "messages_text v = Inr PNone"

text \<open>Lines 107 to 122: the reply extraction, which may raise.\<close>

definition extract_reply :: "pyval \<Rightarrow> pyexc + pyval" where
  "extract_reply result =
     (case messages_text result of
        Inl e \<Rightarrow> Inl e
      | Inr t \<Rightarrow>
          let t' = (if \<not> truthy t \<and> is_str result then result else t)
          in Inr (py_or t' (PStr no_content_text)))"

text \<open>
  Lines 85 to 129, the body of \<open>if user_input:\<close>. The result is the history afterwards
  and the exception that left the block, if one did. Only lines 104 to 122 stand in the
  \<open>try\<close>, and \<open>except Exception\<close> catches the instances of \<open>Exception\<close> only. So an
  exception leaves the block when a message class rejects a content of the history, when
  the graph raises something that is not an instance of \<open>Exception\<close>, and when displaying
  the reply (line 128) raises; in each case the user message was appended and the
  assistant message is not. The submitted text is a string, which line 87 displays.
\<close>

definition user_message :: "pystr \<Rightarrow> message" where
  "user_message text = \<lparr>role = user_role, content = PStr text\<rparr>"

definition assistant_message :: "pyval \<Rightarrow> message" where
  "assistant_message v = \<lparr>role = assistant_role, content = v\<rparr>"

definition try_reply :: "graph \<Rightarrow> outbound list \<Rightarrow> pyexc + pyval" where
  "try_reply app lc =
     (case app lc of
        Raises e \<Rightarrow> if is_Exception e then Inr (PStr (error_text e)) else Inl e
      | Returns result \<Rightarrow>
          (case extract_reply result of
             Inl e \<Rightarrow> if is_Exception e then Inr (PStr (error_text e)) else Inl e
           | Inr t \<Rightarrow> Inr t))"

definition submit :: "msg_classes option \<Rightarrow> graph \<Rightarrow> message list \<Rightarrow> pystr \<Rightarrow> message list \<times> pyexc option" where
  "submit classes app h text =
     (let h1 = h @ [user_message text] in
      case lc_messages classes h1 of
        Inl e \<Rightarrow> (h1, Some e)
      | Inr lc \<Rightarrow>
          (case try_reply app lc of
             Inl e \<Rightarrow> (h1, Some e)
           | Inr t \<Rightarrow>
               (case markdown t of
                  Some e \<Rightarrow> (h1, Some e)
                | None \<Rightarrow> (h1 @ [assistant_message t], None))))"

text \<open>
  Lines 82 and 83: \<open>st.chat_input\<close> gives \<open>None\<close> when nothing was submitted, and the
  block runs only for a truthy input.
\<close>

definition handle_input :: "msg_classes option \<Rightarrow> graph \<Rightarrow> message list \<Rightarrow> pystr option \<Rightarrow> message list \<times> pyexc option" where
  "handle_input classes app h user_input =
     (case user_input of
        None \<Rightarrow> (h, None)
      | Some text \<Rightarrow> if text \<noteq> [] then submit classes app h text else (h, None))"

text \<open>
  Lines 78 to 80 display every entry of the history, in order; a content that does not
  print ends the run there.
\<close>

fun render_history :: "message list \<Rightarrow> pyexc option" where
  "render_history [] = None"
| "render_history (m # ms) =
     (case markdown (content m) of Some e \<Rightarrow> Some e | None \<Rightarrow> render_history ms)"

text \<open>Lines 77 to 129: the history is displayed, then the input is handled.\<close>

definition script_body :: "msg_classes option \<Rightarrow> graph \<Rightarrow> message list \<Rightarrow> pystr option \<Rightarrow> message list \<times> pyexc option" where
  "script_body classes app h user_input =
     (case render_history h of
        Some e \<Rightarrow> (h, Some e)
      | None \<Rightarrow> handle_input classes app h user_input)"

text \<open>Lines 72 to 75: the session state holds no \<open>messages\<close> key before the first run.\<close>

definition init_session :: "message list option \<Rightarrow> message list" where
  "init_session st = (case st of None \<Rightarrow> [greeting] | Some h \<Rightarrow> h)"

text \<open>
  One run of the script from line 67 on. Without a compiled graph the run stops before
  the session state is touched.
\<close>

definition script_run :: "msg_classes option \<Rightarrow> graph option \<Rightarrow> message list option \<Rightarrow> pystr option \<Rightarrow> message list option \<times> pyexc option" where
  "script_run classes app st user_input =
     (case app of
        None \<Rightarrow> (st, None)
      | Some a \<Rightarrow>
          (case script_body classes a (init_session st) user_input of
             (h, e) \<Rightarrow> (Some h, e)))"

text \<open>
  A session is a sequence of script runs over the same session state. Each run comes with
  the behaviour of the graph during that run (the graph may answer differently every
  time) and with the chat input; the exceptions that escaped a run are collected.
\<close>

fun escaped :: "pyexc option \<Rightarrow> pyexc list" where
  "escaped None = []"
| "escaped (Some e) = [e]"

fun session :: "msg_classes option \<Rightarrow> message list option \<Rightarrow> (graph \<times> pystr option) list \<Rightarrow> message list option \<times> pyexc list" where
  "session classes st [] = (st, [])"
| "session classes st ((app, user_input) # runs) =
     (case script_run classes (Some app) st user_input of
        (st', e) \<Rightarrow>
          (case session classes st' runs of
             (st'', es) \<Rightarrow> (st'', escaped e @ es)))"

text \<open>A run is a submission when the chat input holds a non-empty text.\<close>

fun is_submission :: "graph \<times> pystr option \<Rightarrow> bool" where
  "is_submission (app, None) = False"
| "is_submission (app, Some text) = (text \<noteq> [])"

text \<open>
  What an outbound message carries, whichever path built it: a \<open>HumanMessage\<close> stands for
  the role \<open>user\<close>, an \<open>AIMessage\<close> for the role \<open>assistant\<close>.
\<close>

fun out_role :: "outbound \<Rightarrow> pystr" where
  "out_role (HumanMessage c) = user_role"
| "out_role (AIMessage c) = assistant_role"
| "out_role (DictMessage r c) = r"

fun out_content :: "outbound \<Rightarrow> pyval" where
  "out_content (HumanMessage c) = c"
| "out_content (AIMessage c) = c"
| "out_content (DictMessage r c) = c"

text \<open>
  The result shape "a mapping with a \<open>messages\<close> key holding a non-empty sequence whose
  last element yields content".
\<close>

fun has_message_content :: "pyval \<Rightarrow> bool" where
  "has_message_content (PDict d) =
     (case map_of d (ustr ''messages'') of
        Some (PList msgs) \<Rightarrow> msgs \<noteq> [] \<and> truthy (last_content (last msgs))
      | _ \<Rightarrow> False)"
| "has_message_content v = False"

subsection \<open>Graph stubs\<close>

definition result_X :: pyval where
  "result_X = PDict [(ustr ''messages'', PList [PDict [(ustr ''content'', PStr (ustr ''X''))]])]"

definition result_empty_content :: pyval where
  "result_empty_content = PDict [(ustr ''messages'', PList [PDict [(ustr ''content'', PStr [])]])]"

definition result_int_messages :: pyval where
  "result_int_messages = PDict [(ustr ''messages'', PInt 5)]"

definition result_seven :: pyval where
  "result_seven = PDict [(ustr ''messages'', PList [PDict [(ustr ''content'', PInt 7)]])]"

definition stub_returning :: "pyval \<Rightarrow> graph" where
  "stub_returning v lc = Returns v"

definition stub_raising :: "pyexc \<Rightarrow> graph" where
  "stub_raising e lc = Raises e"

definition boom :: pyexc where
  "boom = PyExc (ustr ''RuntimeError'') True (ustr ''boom'')"

definition exit_boom :: pyexc where
  "exit_boom = PyExc (ustr ''SystemExit'') False (ustr ''boom'')"

text \<open>
  Message classes that accept a string, or a list of strings and mappings, as content
  and reject every other content, which is the content type \<open>langchain_core\<close> declares;
  the text of the error is abridged.
\<close>

fun is_dict :: "pyval \<Rightarrow> bool" where
  "is_dict (PDict d) = True"
| "is_dict v = False"

fun content_ok :: "pyval \<Rightarrow> bool" where
  "content_ok (PStr s) = True"
| "content_ok (PList xs) = list_all (\<lambda>x. is_str x \<or> is_dict x) xs"
| "content_ok v = False"

definition validation_error :: "pystr \<Rightarrow> pyexc" where
  "validation_error cls =
     PyExc (ustr ''ValidationError'') True (ustr ''validation error for '' @ cls)"

definition strict_classes :: msg_classes where
  "strict_classes =
     \<lparr>human_check = (\<lambda>v. if content_ok v then None
                           else Some (validation_error (ustr ''HumanMessage''))),
      ai_check = (\<lambda>v. if content_ok v then None
                        else Some (validation_error (ustr ''AIMessage'')))\<rparr>"

text \<open>
  A session of three runs: a submission answered by the stub of the first example, a run
  without input, and a submission during which the graph raises.
\<close>

definition demo_runs :: "(graph \<times> pystr option) list" where
  "demo_runs =
     [(stub_returning result_X, Some (ustr ''hi'')),
      (stub_raising boom, None),
      (stub_raising boom, Some (ustr ''again''))]"

section \<open>Bootstrap loader\<close>

text \<open>
  What executing a cell can read and change: the shared globals \<open>g\<close>, the process
  environment \<open>os.environ\<close>, and the two buffers that standard output and standard error
  are redirected to.
\<close>

type_synonym namespace = "pystr \<rightharpoonup> pyval"

type_synonym environ_map = "pystr \<rightharpoonup> pystr"

record pystate =
  globals :: namespace
  environ :: environ_map
  stdout_buf :: pystr
  stderr_buf :: pystr

text \<open>
  \<open>exec(src, g)\<close> for the code of the notebook is a parameter: an interpreter takes the
  source and the state, and gives the state afterwards together with the exception it
  raised, if it raised one.
\<close>

type_synonym interp = "pystr \<Rightarrow> pystate \<Rightarrow> pyexc option \<times> pystate"

text \<open>\<open>os.environ.get(k, d)\<close>, and the path of lines 15 and 32.\<close>

definition environ_get :: "environ_map \<Rightarrow> pystr \<Rightarrow> pystr \<Rightarrow> pystr" where
  "environ_get env k d = (case env k of Some v \<Rightarrow> v | None \<Rightarrow> d)"

definition redfin_path :: "environ_map \<Rightarrow> pystr" where
  "redfin_path env = environ_get env (ustr ''REDFIN_CSV_PATH'') (ustr ''data/redfin.csv'')"

text \<open>The substitute of lines 30 to 33 (a quote is 39, a newline is 10).\<close>

definition patched_source :: pystr where
  "patched_source =
     ustr ''import os'' @ [10] @
     ustr ''file_path = os.environ.get('' @ [39] @ ustr ''REDFIN_CSV_PATH'' @ [39] @
     ustr '', '' @ [39] @ ustr ''data/redfin.csv'' @ [39] @ ustr '')'' @ [10]"

definition maybe_patch :: "pystr \<Rightarrow> pystr" where
  "maybe_patch src =
     (if contains (ustr ''file_path ='') src \<and> contains (ustr ''redfin.csv'') src \<and>
         contains (ustr ''/content/drive'') src
      then patched_source else src)"

text \<open>
  What the substitute does when \<open>exec\<close> runs it with the builtins and the module \<open>os\<close> as
  Python ships them: \<open>exec\<close> puts \<open>__builtins__\<close> into the globals when the key is
  missing, \<open>import os\<close> binds the module, and the assignment binds \<open>file_path\<close> to
  \<open>os.environ.get('REDFIN_CSV_PATH', 'data/redfin.csv')\<close>. The module is an object of
  class \<open>module\<close>; \<open>builtins_ref\<close> stands for the dictionary of the module \<open>builtins\<close>,
  whose entries are not modelled. Whether an interpreter runs the substitute this way in
  a given state is for the interpreter to say (an earlier cell may have rebound
  \<open>__builtins__\<close> or changed the module), so \<open>run_substitute\<close> is not part of the loop:
  the theorems name it where they assume it.
\<close>

definition os_module :: pyval where
  "os_module = PObj (ustr ''module'') [(ustr ''__name__'', PStr (ustr ''os''))] None"

definition builtins_ref :: pyval where
  "builtins_ref = PObj (ustr ''builtins'') [] None"

definition with_builtins :: "namespace \<Rightarrow> namespace" where
  "with_builtins g =
     (case g (ustr ''__builtins__'') of
        None \<Rightarrow> g(ustr ''__builtins__'' \<mapsto> builtins_ref)
      | Some b \<Rightarrow> g)"

definition run_substitute :: "pystate \<Rightarrow> pystate" where
  "run_substitute s =
     s\<lparr>globals := (with_builtins (globals s))
          (ustr ''os'' \<mapsto> os_module,
           ustr ''file_path'' \<mapsto> PStr (redfin_path (environ s)))\<rparr>"

text \<open>A notebook is the list of its cells; \<open>cell.source or ""\<close> is \<open>src_of\<close>.\<close>

record cell =
  cell_type :: pystr
  source :: pystr

definition src_of :: "cell \<Rightarrow> pystr" where
  "src_of c = (if source c \<noteq> [] then source c else [])"

text \<open>Line 43: magics and interactive input.\<close>

definition skip_cell :: "pystr \<Rightarrow> bool" where
  "skip_cell src = (startswith (ustr ''%'') (strip src) \<or> contains (ustr ''input('') src)"

text \<open>
  The loop of lines 38 to 45. Beside the state it threads the list of the sources that
  were handed to \<open>exec\<close>, in order; the list is not a variable of the program but a record
  of what it executed. An exception of a cell ends the loop and leaves it.
\<close>

fun run_cells :: "interp \<Rightarrow> cell list \<Rightarrow> pystate \<Rightarrow> pystr list \<Rightarrow> pyexc option \<times> pystate \<times> pystr list" where
  "run_cells ex [] s tr = (None, s, tr)"
| "run_cells ex (c # cs) s tr =
     (if cell_type c \<noteq> ustr ''code'' then run_cells ex cs s tr
      else if skip_cell (src_of c) then run_cells ex cs s tr
      else
        (case ex (maybe_patch (src_of c)) s of
           (Some e, s') \<Rightarrow> (Some e, s', tr @ [maybe_patch (src_of c)])
         | (None, s') \<Rightarrow> run_cells ex cs s' (tr @ [maybe_patch (src_of c)])))"

text \<open>
  The state of the server process: the environment, the record of the executed sources,
  and the table of the results cached for \<open>bootstrap_notebook\<close>.
\<close>

record process =
  os_environ :: environ_map
  executed :: "pystr list"
  cache :: "pystr \<rightharpoonup> namespace \<times> pystr"

definition seed_globals :: "pystr \<Rightarrow> namespace" where
  "seed_globals default_redfin =
     [ustr ''__name__'' \<mapsto> PStr (ustr ''__main__''),
      ustr ''file_path'' \<mapsto> PStr default_redfin]"

definition logs_of :: "pystate \<Rightarrow> pystr" where
  "logs_of s = stdout_buf s @ [10] @ stderr_buf s"

text \<open>
  Lines 19 to 48, the function under the decorator. \<open>nbformat_read\<close> is
  \<open>nbformat.read(nb_path, as_version=4)\<close>, which gives the cells or raises;
  \<open>default_redfin\<close> is the module constant \<open>DEFAULT_REDFIN\<close>. An exception leaves the
  function, and what the cells did to the environment before it stays done.
\<close>

definition bootstrap_body :: "interp \<Rightarrow> (pystr \<Rightarrow> pyexc + cell list) \<Rightarrow> pystr \<Rightarrow> pystr \<Rightarrow> process \<Rightarrow> (pyexc + namespace \<times> pystr) \<times> process" where
  "bootstrap_body ex nbformat_read default_redfin nb_path p =
     (case nbformat_read nb_path of
        Inl e \<Rightarrow> (Inl e, p)
      | Inr cells \<Rightarrow>
          (case run_cells ex cells
                  \<lparr>globals = seed_globals default_redfin, environ = os_environ p,
                   stdout_buf = [], stderr_buf = []\<rparr>
                  (executed p) of
             (Some e, s, tr) \<Rightarrow> (Inl e, p\<lparr>os_environ := environ s, executed := tr\<rparr>)
           | (None, s, tr) \<Rightarrow>
               (Inr (globals s, logs_of s), p\<lparr>os_environ := environ s, executed := tr\<rparr>)))"

text \<open>
  Modelled from the spec: the decorator \<open>st.cache_resource\<close> of line 18 belongs to
  Streamlit, whose code is not part of the repository. The spec calls it a process-wide
  cached-result policy keyed by the notebook path argument: a call whose path has a cached
  result returns that result and runs nothing; any other call runs the function and,
  when it returns, caches what it returned under the path. A call that raises has no
  result to cache.
\<close>

definition bootstrap_notebook :: "interp \<Rightarrow> (pystr \<Rightarrow> pyexc + cell list) \<Rightarrow> pystr \<Rightarrow> pystr \<Rightarrow> process \<Rightarrow> (pyexc + namespace \<times> pystr) \<times> process" where
  "bootstrap_notebook ex nbformat_read default_redfin nb_path p =
     (case cache p nb_path of
        Some r \<Rightarrow> (Inr r, p)
      | None \<Rightarrow>
          (case bootstrap_body ex nbformat_read default_redfin nb_path p of
             (Inl e, p') \<Rightarrow> (Inl e, p')
           | (Inr r, p') \<Rightarrow> (Inr r, p'\<lparr>cache := (cache p')(nb_path \<mapsto> r)\<rparr>)))"

text \<open>\<open>n\<close> calls in a row with the same path; the results in order and the process afterwards.\<close>

fun call_n :: "nat \<Rightarrow> interp \<Rightarrow> (pystr \<Rightarrow> pyexc + cell list) \<Rightarrow> pystr \<Rightarrow> pystr \<Rightarrow> process \<Rightarrow> (pyexc + namespace \<times> pystr) list \<times> process" where
  "call_n 0 ex nbformat_read default_redfin nb_path p = ([], p)"
| "call_n (Suc n) ex nbformat_read default_redfin nb_path p =
     (case bootstrap_notebook ex nbformat_read default_redfin nb_path p of
        (r, p') \<Rightarrow>
          (case call_n n ex nbformat_read default_redfin nb_path p' of
             (rs, p'') \<Rightarrow> (r # rs, p'')))"

subsection \<open>A small notebook\<close>

text \<open>
  An interpreter that runs the statement \<open>file_path = "old.csv"\<close>, the statement
  \<open>raise RuntimeError("boom")\<close> and the substitute as Python does, and takes every other
  source for a program that binds nothing; and cells to run under it.
\<close>

definition assign_src :: pystr where
  "assign_src = ustr ''file_path = '' @ [34] @ ustr ''old.csv'' @ [34]"

definition raise_src :: pystr where
  "raise_src = ustr ''raise RuntimeError('' @ [34] @ ustr ''boom'' @ [34] @ ustr '')''"

definition toy_interp :: interp where
  "toy_interp src s =
     (if src = assign_src
      then (None, s\<lparr>globals := (with_builtins (globals s))
                       (ustr ''file_path'' \<mapsto> PStr (ustr ''old.csv''))\<rparr>)
      else if src = raise_src
      then (Some boom, s\<lparr>globals := with_builtins (globals s)\<rparr>)
      else if src = patched_source then (None, run_substitute s)
      else (None, s\<lparr>globals := with_builtins (globals s)\<rparr>))"

definition code_cell :: "pystr \<Rightarrow> cell" where
  "code_cell src = \<lparr>cell_type = ustr ''code'', source = src\<rparr>"

definition drive_src :: pystr where
  "drive_src = ustr ''file_path = '' @ [34] @ ustr ''/content/drive/MyDrive/redfin.csv'' @ [34]"

definition drive_input_src :: pystr where
  "drive_input_src = drive_src @ [10] @ ustr ''zip_code = input()''"

definition magic_src :: pystr where
  "magic_src = ustr ''  %pip install langgraph''"

definition fresh_process :: process where
  "fresh_process = \<lparr>os_environ = Map.empty, executed = [], cache = Map.empty\<rparr>"

definition toy_read :: "cell list \<Rightarrow> pystr \<Rightarrow> pyexc + cell list" where
  "toy_read cells nb_path = Inr cells"


section \<open>Properties of the chat session controller\<close>

subsection \<open>Strings, printing and the reply extraction\<close>




lemma error_text_nonempty: "error_text e \<noteq> []"
  by (simp add: error_text_def)

lemma no_content_nonempty: "no_content_text \<noteq> []"
  by (simp add: no_content_text_def)

lemma roles_differ: "user_role \<noteq> assistant_role"
  by (simp add: user_role_def assistant_role_def ustr_def)

lemma markdown_str: "markdown (PStr s) = None"
  by (simp add: markdown_def)

text \<open>Whatever the extraction raises is an instance of \<open>Exception\<close>.\<close>

lemma getitem_last_is_Exception: "getitem_last v = Inl e \<Longrightarrow> is_Exception e"
  by (cases v) (auto simp: not_subscriptable_def split: if_splits)

lemma messages_text_is_Exception: "messages_text r = Inl e \<Longrightarrow> is_Exception e"
  by (cases r) (auto split: option.splits if_splits sum.splits dest: getitem_last_is_Exception)

lemma extract_reply_is_Exception: "extract_reply r = Inl e \<Longrightarrow> is_Exception e"
  by (auto simp: extract_reply_def Let_def split: sum.splits dest: messages_text_is_Exception)

text \<open>
  The extraction raises exactly on a dict whose \<open>messages\<close> entry is truthy and neither a
  list nor a string.
\<close>

lemma extract_reply_raises_iff:
  "isl (extract_reply r) \<longleftrightarrow>
     (\<exists>d m. r = PDict d \<and> map_of d (ustr ''messages'') = Some m \<and> truthy m \<and>
        (\<forall>xs. m \<noteq> PList xs) \<and> (\<forall>s. m \<noteq> PStr s))"
proof (cases r)
  case (PDict d)
  show ?thesis
  proof (cases "map_of d (ustr ''messages'')")
    case None
    then show ?thesis using PDict by (simp add: extract_reply_def)
  next
    case (Some m)
    then show ?thesis
      using PDict by (cases m) (auto simp: extract_reply_def Let_def)
  qed
qed (auto simp: extract_reply_def Let_def)

lemma extract_reply_truthy: "extract_reply r = Inr t \<Longrightarrow> truthy t"
  by (auto simp: extract_reply_def Let_def py_or_def no_content_nonempty
      split: sum.splits if_splits)

lemma try_reply_truthy: "try_reply app lc = Inr t \<Longrightarrow> truthy t"
  by (auto simp: try_reply_def error_text_nonempty
      split: invoke_outcome.splits sum.splits if_splits dest: extract_reply_truthy)

lemma try_reply_escapes: "try_reply app lc = Inl e \<Longrightarrow> app lc = Raises e \<and> \<not> is_Exception e"
  by (auto simp: try_reply_def split: invoke_outcome.splits sum.splits if_splits
      dest: extract_reply_is_Exception)

lemma messages_text_falsy:
  assumes "\<not> has_message_content r" and "messages_text r = Inr t"
  shows "\<not> truthy t"
proof (cases r)
  case (PDict d)
  show ?thesis
  proof (cases "map_of d (ustr ''messages'')")
    case None
    then show ?thesis using assms PDict by auto
  next
    case (Some m)
    then show ?thesis
      using assms PDict by (cases m) (auto split: if_splits)
  qed
qed (use assms in auto)

subsection \<open>One submission\<close>

lemma submit_reply:
  "lc_messages classes (h @ [user_message inp]) = Inr lc \<Longrightarrow> try_reply app lc = Inr t \<Longrightarrow>
   markdown t = None \<Longrightarrow>
   submit classes app h inp = (h @ [user_message inp, assistant_message t], None)"
  by (simp add: submit_def Let_def)

lemma submit_cases:
  "(\<exists>t. truthy t \<and> markdown t = None \<and>
        submit classes app h inp = (h @ [user_message inp, assistant_message t], None)) \<or>
   (\<exists>e. submit classes app h inp = (h @ [user_message inp], Some e))"
proof (cases "lc_messages classes (h @ [user_message inp])")
  case (Inl e)
  then show ?thesis by (simp add: submit_def Let_def)
next
  case (Inr lc)
  show ?thesis
  proof (cases "try_reply app lc")
    case (Inl e)
    then show ?thesis using Inr by (simp add: submit_def Let_def)
  next
    case t: (Inr t)
    show ?thesis
    proof (cases "markdown t")
      case None
      then show ?thesis
        using Inr t submit_reply try_reply_truthy by blast
    next
      case (Some e)
      then show ?thesis using Inr t by (simp add: submit_def Let_def)
    qed
  qed
qed

text \<open>
  An exception leaves a submission exactly when a message class rejects a content of the
  history, when the graph raises something that is not an instance of \<open>Exception\<close>, or
  when displaying the reply raises.
\<close>

lemma submit_escapes_iff:
  "snd (submit classes app h inp) = Some e \<longleftrightarrow>
     lc_messages classes (h @ [user_message inp]) = Inl e \<or>
     (\<exists>lc. lc_messages classes (h @ [user_message inp]) = Inr lc \<and>
        ((app lc = Raises e \<and> \<not> is_Exception e) \<or>
         (\<exists>t. try_reply app lc = Inr t \<and> markdown t = Some e)))"
proof (cases "lc_messages classes (h @ [user_message inp])")
  case (Inl e')
  then show ?thesis by (simp add: submit_def Let_def)
next
  case (Inr lc)
  show ?thesis
  proof (cases "try_reply app lc")
    case (Inl e')
    then show ?thesis
      using Inr try_reply_escapes [OF Inl] by (auto simp: submit_def Let_def)
  next
    case t: (Inr t)
    have "\<not> (app lc = Raises e \<and> \<not> is_Exception e)"
      using t by (auto simp: try_reply_def split: if_splits)
    then show ?thesis
      using Inr t by (cases "markdown t") (auto simp: submit_def Let_def)
  qed
qed

lemmas stub_defs = stub_returning_def stub_raising_def result_X_def result_empty_content_def
  result_int_messages_def result_seven_def boom_def exit_boom_def

lemmas run_defs = submit_def lc_messages_def lc_fallback_def try_reply_def extract_reply_def
  py_or_def markdown_def

subsection \<open>The reply taken from the messages of the result\<close>

text \<open>
  C1, as the code has it: when the outbound list was built and the graph returns a
  mapping whose \<open>messages\<close> entry is a non-empty list, and the last element of that list
  carries a truthy content that \<open>st.markdown\<close> can display (its \<open>content\<close> attribute when
  it is an object exposing one, its \<open>content\<close> entry when it is a mapping), \<open>submit\<close>
  appends the user message and then an assistant message with exactly that content, and
  no exception leaves the turn.
\<close>

theorem messages_reply_appended:
  assumes built: "lc_messages classes (h @ [user_message inp]) = Inr lc"
    and inv: "app lc = Returns (PDict d)"
    and msgs: "map_of d (ustr ''messages'') = Some (PList msgs)" "msgs \<noteq> []"
    and src: "(last msgs = PObj cls attrs pr \<and> map_of attrs (ustr ''content'') = Some v) \<or>
              (last msgs = PDict d' \<and> map_of d' (ustr ''content'') = Some v)"
    and v: "truthy v"
    and shown: "markdown v = None"
  shows "submit classes app h inp = (h @ [user_message inp, assistant_message v], None)"
proof -
  from src have lc: "last_content (last msgs) = v"
    by auto
  have "messages_text (PDict d) = Inr v"
    using msgs lc by simp
  then have "extract_reply (PDict d) = Inr v"
    using v by (simp add: extract_reply_def py_or_def)
  then have "try_reply app lc = Inr v"
    using inv by (simp add: try_reply_def)
  then show ?thesis
    using submit_reply [OF built _ shown] by simp
qed

text \<open>
  C1 at the stub result \<open>{"messages": [{"content": "X"}]}\<close>: the appended assistant
  message has content \<open>"X"\<close>.
\<close>

theorem messages_reply_stub_X:
  "submit None (stub_returning result_X) [greeting] (ustr ''hi'') =
     ([greeting, user_message (ustr ''hi''), assistant_message (PStr (ustr ''X''))], None)"
  using messages_reply_appended [where app = "stub_returning result_X" and classes = None
      and h = "[greeting]" and inp = "ustr ''hi''"
      and lc = "lc_fallback ([greeting] @ [user_message (ustr ''hi'')])"
      and msgs = "[PDict [(ustr ''content'', PStr (ustr ''X''))]]"
      and d = "[(ustr ''messages'', PList [PDict [(ustr ''content'', PStr (ustr ''X''))]])]"
      and d' = "[(ustr ''content'', PStr (ustr ''X''))]" and v = "PStr (ustr ''X'')"]
  by (simp add: stub_defs ustr_def lc_messages_def markdown_def)

text \<open>
  C1 as stated fails at \<open>{"messages": [{"content": ""}]}\<close>: the \<open>messages\<close> list is
  non-empty and its last element has the content entry \<open>""\<close>, but line 122 replaces the
  falsy text, so the appended content is the placeholder and not that entry.
\<close>

theorem empty_content_gives_placeholder:
  "result_empty_content =
     PDict [(ustr ''messages'', PList [PDict [(ustr ''content'', PStr [])]])] \<and>
   submit None (stub_returning result_empty_content) [greeting] (ustr ''hi'') =
     ([greeting, user_message (ustr ''hi''), assistant_message (PStr no_content_text)], None) \<and>
   PStr no_content_text \<noteq> PStr []"
  by (simp add: stub_defs run_defs no_content_text_def)

text \<open>
  A content that is truthy and does not print is not appended either: for an integer of
  4301 digits line 128 raises, and the exception leaves the turn.
\<close>

lemma huge_int_no_print: "markdown (PInt (10 ^ int_max_str_digits)) = Some int_str_error"
  by (simp add: markdown_def)

lemma huge_int_reply_escapes:
  "submit None
     (stub_returning (PDict [(ustr ''messages'',
        PList [PDict [(ustr ''content'', PInt (10 ^ int_max_str_digits))]])]))
     [greeting] (ustr ''hi'') =
   ([greeting, user_message (ustr ''hi'')], Some int_str_error)"
  using huge_int_no_print
  by (simp add: stub_defs submit_def lc_messages_def try_reply_def extract_reply_def py_or_def)

subsection \<open>A raising turn\<close>




subsection \<open>A string result\<close>

text \<open>
  C5, as the code has it: when the outbound list was built and the graph returns a
  non-empty string, \<open>submit\<close> appends an assistant message whose content is that string.
\<close>

theorem string_result_verbatim:
  assumes built: "lc_messages classes (h @ [user_message inp]) = Inr lc"
    and inv: "app lc = Returns (PStr s)"
    and s: "s \<noteq> []"
  shows "submit classes app h inp = (h @ [user_message inp, assistant_message (PStr s)], None)"
proof -
  have "extract_reply (PStr s) = Inr (PStr s)"
    using s by (simp add: extract_reply_def py_or_def)
  then have "try_reply app lc = Inr (PStr s)"
    using inv by (simp add: try_reply_def)
  then show ?thesis
    using built markdown_str submit_reply by blast
qed

text \<open>C5 at the stub that returns the string \<open>"Y"\<close>.\<close>

theorem string_Y_reply:
  "submit None (stub_returning (PStr (ustr ''Y''))) [greeting] (ustr ''hi'') =
     ([greeting, user_message (ustr ''hi''), assistant_message (PStr (ustr ''Y''))], None)"
  using string_result_verbatim [where app = "stub_returning (PStr (ustr ''Y''))"
      and classes = None and h = "[greeting]" and inp = "ustr ''hi''" and s = "ustr ''Y''"
      and lc = "lc_fallback ([greeting] @ [user_message (ustr ''hi'')])"]
  by (simp add: stub_defs ustr_def lc_messages_def)

text \<open>
  C5 as stated fails at the empty string: the result is a string, and the appended
  content is the placeholder, not the string.
\<close>

theorem empty_string_gives_placeholder:
  "submit None (stub_returning (PStr [])) [greeting] (ustr ''hi'') =
     ([greeting, user_message (ustr ''hi''), assistant_message (PStr no_content_text)], None) \<and>
   PStr no_content_text \<noteq> PStr []"
  by (simp add: stub_defs run_defs no_content_text_def)

subsection \<open>No content\<close>

text \<open>
  C7, as the code has it: when the outbound list was built and the graph returns a value
  that is not a string and not a mapping whose \<open>messages\<close> entry is a non-empty list with
  a last element yielding content, and the extraction does not raise on it, \<open>submit\<close>
  appends the placeholder.
\<close>

theorem no_content_placeholder:
  assumes built: "lc_messages classes (h @ [user_message inp]) = Inr lc"
    and inv: "app lc = Returns r"
    and nostr: "\<not> is_str r"
    and nomsg: "\<not> has_message_content r"
    and noraise: "\<not> isl (extract_reply r)"
  shows "submit classes app h inp =
           (h @ [user_message inp, assistant_message (PStr no_content_text)], None)"
proof -
  from noraise obtain t where t: "messages_text r = Inr t"
    by (cases "messages_text r") (auto simp: extract_reply_def)
  then have "\<not> truthy t"
    using nomsg messages_text_falsy by blast
  then have "extract_reply r = Inr (PStr no_content_text)"
    using t nostr by (simp add: extract_reply_def py_or_def)
  then have "try_reply app lc = Inr (PStr no_content_text)"
    using inv by (simp add: try_reply_def)
  then show ?thesis
    using built markdown_str submit_reply by blast
qed

text \<open>C7 at the stub that returns the empty mapping \<open>{}\<close>.\<close>

theorem empty_dict_placeholder:
  "submit None (stub_returning (PDict [])) [greeting] (ustr ''hi'') =
     ([greeting, user_message (ustr ''hi''), assistant_message (PStr no_content_text)], None)"
  using no_content_placeholder [where app = "stub_returning (PDict [])" and classes = None
      and h = "[greeting]" and inp = "ustr ''hi''" and r = "PDict []"
      and lc = "lc_fallback ([greeting] @ [user_message (ustr ''hi'')])"]
  by (simp add: stub_defs extract_reply_def lc_messages_def)

text \<open>
  C7 as stated fails at \<open>{"messages": 5}\<close>: the result is neither a string nor a mapping
  with a non-empty \<open>messages\<close> sequence, but \<open>msgs[-1]\<close> raises \<open>TypeError\<close>, the handler
  catches it, and the appended content is the error text, not the placeholder.
\<close>

theorem int_messages_gives_error:
  "\<not> is_str result_int_messages \<and> \<not> has_message_content result_int_messages \<and>
   submit None (stub_returning result_int_messages) [greeting] (ustr ''hi'') =
     ([greeting, user_message (ustr ''hi''),
       assistant_message (PStr (error_text (not_subscriptable (PInt 5))))], None) \<and>
   PStr (error_text (not_subscriptable (PInt 5))) \<noteq> PStr no_content_text"
  by (simp add: stub_defs run_defs not_subscriptable_def error_text_def no_content_text_def)

subsection \<open>The history over a session\<close>

text \<open>The integer 7 prints.\<close>

lemma seven_small: "\<not> (10::int) ^ int_max_str_digits \<le> 7"
proof -
  have "(7::int) < 10 ^ 1" by simp
  also have "(10::int) ^ 1 \<le> 10 ^ int_max_str_digits"
    by (rule power_increasing) (simp_all add: int_max_str_digits_def)
  finally show ?thesis by simp
qed

lemma handle_input_cases:
  "(\<not> is_submission (app, u) \<and> handle_input classes app h u = (h, None)) \<or>
   (\<exists>inp. u = Some inp \<and> inp \<noteq> [] \<and> handle_input classes app h u = submit classes app h inp)"
  by (cases u) (auto simp: handle_input_def)

lemma script_run_Some:
  "script_run classes (Some app) (Some h) u =
     (Some (fst (script_body classes app h u)), snd (script_body classes app h u))"
  by (simp add: script_run_def init_session_def split: prod.splits)

lemma session_Cons_Some:
  "session classes (Some h) ((app, u) # runs) =
     (fst (session classes (Some (fst (script_body classes app h u))) runs),
      escaped (snd (script_body classes app h u)) @
      snd (session classes (Some (fst (script_body classes app h u))) runs))"
  by (simp add: script_run_Some split: prod.splits)

lemma session_Cons_None:
  "session classes None ((app, u) # runs) =
     (fst (session classes (Some (fst (script_body classes app [greeting] u))) runs),
      escaped (snd (script_body classes app [greeting] u)) @
      snd (session classes (Some (fst (script_body classes app [greeting] u))) runs))"
  by (simp add: script_run_def init_session_def split: prod.splits)

declare session.simps(2) [simp del]

lemma escaped_Nil: "escaped e = [] \<longleftrightarrow> e = None"
  by (cases e) simp_all

lemma script_body_cases:
  "(\<exists>e. script_body classes app h u = (h, Some e)) \<or>
   script_body classes app h u = handle_input classes app h u"
  by (cases "render_history h") (simp_all add: script_body_def)

lemma handle_input_extends:
  "\<exists>ext. fst (handle_input classes app h u) = h @ ext"
  using handle_input_cases [of app u classes h] submit_cases [of classes app h]
  by (metis append.right_neutral fst_conv)

lemma script_body_extends:
  "\<exists>ext. fst (script_body classes app h u) = h @ ext"
  using script_body_cases [of classes app h u] handle_input_extends [of classes app h u]
  by (metis append.right_neutral fst_conv)

lemma handle_input_length:
  assumes "snd (handle_input classes app h u) = None"
  shows "length (fst (handle_input classes app h u)) =
           length h + 2 * (if is_submission (app, u) then 1 else 0)"
proof (cases u)
  case None
  then show ?thesis by (simp add: handle_input_def)
next
  case (Some inp)
  show ?thesis
  proof (cases "inp = []")
    case True
    then show ?thesis using Some by (simp add: handle_input_def)
  next
    case False
    then have eq: "handle_input classes app h u = submit classes app h inp"
      using Some by (simp add: handle_input_def)
    from submit_cases [of classes app h inp] assms eq
    obtain t where "submit classes app h inp = (h @ [user_message inp, assistant_message t], None)"
      by auto
    then show ?thesis using eq Some False by simp
  qed
qed

lemma script_body_length:
  assumes "snd (script_body classes app h u) = None"
  shows "length (fst (script_body classes app h u)) =
           length h + 2 * (if is_submission (app, u) then 1 else 0)"
  using assms script_body_cases [of classes app h u] handle_input_length [of classes app h u]
  by auto

lemma session_extends:
  "\<exists>ext. fst (session classes (Some h) runs) = Some (h @ ext)"
proof (induction runs arbitrary: h)
  case Nil
  then show ?case by simp
next
  case (Cons r runs)
  obtain app u where r: "r = (app, u)" by (cases r)
  obtain ext where ext: "fst (script_body classes app h u) = h @ ext"
    using script_body_extends by blast
  obtain ext' where "fst (session classes (Some (h @ ext)) runs) = Some ((h @ ext) @ ext')"
    using Cons.IH by blast
  then show ?case
    using r ext by (simp add: session_Cons_Some)
qed

lemma session_length:
  "snd (session classes (Some h) runs) = [] \<Longrightarrow>
   \<exists>h'. fst (session classes (Some h) runs) = Some h' \<and>
         length h' = length h + 2 * length (filter is_submission runs)"
proof (induction runs arbitrary: h)
  case Nil
  then show ?case by simp
next
  case (Cons r runs)
  obtain app u where r: "r = (app, u)" by (cases r)
  let ?h1 = "fst (script_body classes app h u)"
  from Cons.prems r have e: "snd (script_body classes app h u) = None"
    and rest: "snd (session classes (Some ?h1) runs) = []"
    by (simp_all add: session_Cons_Some escaped_Nil)
  from Cons.IH [OF rest] obtain h' where h': "fst (session classes (Some ?h1) runs) = Some h'"
    "length h' = length ?h1 + 2 * length (filter is_submission runs)"
    by blast
  have "fst (session classes (Some h) (r # runs)) = Some h'"
    using r h' by (simp add: session_Cons_Some)
  moreover have "length h' = length h + 2 * length (filter is_submission (r # runs))"
    using h'(2) script_body_length [OF e] r by simp
  ultimately show ?case by blast
qed

lemmas session_defs = session_Cons_Some session_Cons_None script_body_def handle_input_def
  greeting_def user_message_def assistant_message_def user_role_def assistant_role_def
  strict_classes_def

lemma demo_session:
  "session (Some strict_classes) (Some [greeting]) demo_runs =
     (Some [greeting, user_message (ustr ''hi''), assistant_message (PStr (ustr ''X'')),
            user_message (ustr ''again''), assistant_message (PStr (error_text boom))], [])"
  by (simp add: demo_runs_def session_defs run_defs stub_defs ustr_def)

text \<open>
  C3, as the code has it. The first run of the script, whatever the graph, leaves the
  history at the one greeting. A submission that no exception escapes appends the user
  message with the submitted text and then one assistant message. After a session in
  which no exception escaped a run, the history has \<open>1 + 2N\<close> entries, \<open>N\<close> being the
  number of submissions. And in every session, also one with escaping exceptions, the
  history at the start is a prefix of the history at the end. Lemma
  \<open>submit_escapes_iff\<close> says when an exception escapes a submission.
\<close>

theorem history_append_only:
  "script_run classes (Some app0) None None = (Some [greeting], None) \<and>
   (snd (submit classes app h inp) = None \<longrightarrow>
      (\<exists>t. fst (submit classes app h inp) = h @ [user_message inp, assistant_message t])) \<and>
   (snd (session classes (Some [greeting]) runs) = [] \<longrightarrow>
      (\<exists>h'. fst (session classes (Some [greeting]) runs) = Some h' \<and>
            length h' = 1 + 2 * length (filter is_submission runs))) \<and>
   (\<exists>ext. fst (session classes (Some h) runs) = Some (h @ ext))"
proof -
  have a: "script_run classes (Some app0) None None = (Some [greeting], None)"
    by (simp add: script_run_def init_session_def script_body_def handle_input_def
        greeting_def markdown_def)
  have b: "snd (submit classes app h inp) = None \<longrightarrow>
      (\<exists>t. fst (submit classes app h inp) = h @ [user_message inp, assistant_message t])"
    using submit_cases [of classes app h inp] by auto
  have c: "snd (session classes (Some [greeting]) runs) = [] \<longrightarrow>
      (\<exists>h'. fst (session classes (Some [greeting]) runs) = Some h' \<and>
            length h' = 1 + 2 * length (filter is_submission runs))"
    using session_length [of classes "[greeting]" runs] by simp
  show ?thesis
    using a b c session_extends by blast
qed

text \<open>
  C3 at the session \<open>demo_runs\<close> with the message classes in place: it has two
  submissions and a run without input, and the history ends with five entries.
\<close>

theorem demo_history_length:
  "\<exists>h'. fst (session (Some strict_classes) (Some [greeting]) demo_runs) = Some h' \<and> length h' = 5"
  using history_append_only [where classes = "Some strict_classes" and runs = demo_runs]
    demo_session
  by (simp add: demo_runs_def ustr_def)

text \<open>
  C3 as stated fails at a submission during which the graph raises \<open>SystemExit\<close>: the
  exception escapes after the user message was appended, so after this one submission
  the history has two entries, not three.
\<close>

theorem escaped_turn_history_length:
  "is_submission (stub_raising exit_boom, Some (ustr ''hi'')) \<and>
   session None (Some [greeting]) [(stub_raising exit_boom, Some (ustr ''hi''))] =
     (Some [greeting, user_message (ustr ''hi'')], [exit_boom]) \<and>
   length [greeting, user_message (ustr ''hi'')] \<noteq> 1 + 2 * 1"
  by (simp add: session_defs run_defs stub_defs ustr_def)

text \<open>
  An exception also escapes with the message classes in place once the history holds a
  reply that is not a string: the constructor of line 96 rejects it before the graph is
  asked, at every later submission.
\<close>

lemma rejected_content_escapes:
  "session (Some strict_classes) None
     [(stub_returning result_seven, Some (ustr ''hi'')),
      (stub_returning result_X, Some (ustr ''again''))] =
   (Some [greeting, user_message (ustr ''hi''), assistant_message (PInt 7),
          user_message (ustr ''again'')],
    [validation_error (ustr ''AIMessage'')])"
  using seven_small by (simp add: session_defs run_defs stub_defs ustr_def)

subsection \<open>Assistant entries are never empty\<close>

lemma assistant_kept:
  assumes "\<forall>m \<in> set h. role m = assistant_role \<longrightarrow> truthy (content m)"
  shows "\<forall>m \<in> set (fst (script_body classes app h u)). role m = assistant_role \<longrightarrow> truthy (content m)"
proof -
  have "\<forall>m \<in> set (fst (submit classes app h inp)). role m = assistant_role \<longrightarrow> truthy (content m)"
    for inp
    using submit_cases [of classes app h inp] assms roles_differ
    by (auto simp: user_message_def assistant_message_def)
  then have "\<forall>m \<in> set (fst (handle_input classes app h u)).
      role m = assistant_role \<longrightarrow> truthy (content m)"
    using handle_input_cases [of app u classes h] assms by auto
  then show ?thesis
    using script_body_cases [of classes app h u] assms by auto
qed

lemma session_assistant_kept:
  "\<forall>m \<in> set h. role m = assistant_role \<longrightarrow> truthy (content m) \<Longrightarrow>
   fst (session classes (Some h) runs) = Some h' \<Longrightarrow>
   \<forall>m \<in> set h'. role m = assistant_role \<longrightarrow> truthy (content m)"
proof (induction runs arbitrary: h)
  case Nil
  then show ?case by simp
next
  case (Cons r runs)
  obtain app u where r: "r = (app, u)" by (cases r)
  have "\<forall>m \<in> set (fst (script_body classes app h u)). role m = assistant_role \<longrightarrow> truthy (content m)"
    using Cons.prems(1) by (rule assistant_kept)
  moreover have "fst (session classes (Some (fst (script_body classes app h u))) runs) = Some h'"
    using Cons.prems(2) r by (simp add: session_Cons_Some)
  ultimately show ?case
    using Cons.IH by blast
qed

lemma greeting_truthy:
  "\<forall>m \<in> set [greeting]. role m = assistant_role \<longrightarrow> truthy (content m)"
  by (simp add: greeting_def greeting_text_def)

text \<open>
  C10: in the history of any session that starts without a history, every assistant
  entry has a truthy content; in particular its content is neither the empty string nor
  \<open>None\<close>.
\<close>

theorem assistant_content_nonempty:
  assumes "fst (session classes None runs) = Some h"
    and "m \<in> set h" and "role m = assistant_role"
  shows "truthy (content m) \<and> content m \<noteq> PStr [] \<and> content m \<noteq> PNone"
proof -
  obtain app u rest where runs: "runs = (app, u) # rest"
    using assms(1) by (cases runs) auto
  have "\<forall>m \<in> set (fst (script_body classes app [greeting] u)).
      role m = assistant_role \<longrightarrow> truthy (content m)"
    using greeting_truthy by (rule assistant_kept)
  moreover have "fst (session classes (Some (fst (script_body classes app [greeting] u))) rest) = Some h"
    using assms(1) runs by (simp add: session_Cons_None)
  ultimately have "\<forall>m \<in> set h. role m = assistant_role \<longrightarrow> truthy (content m)"
    using session_assistant_kept by blast
  then have "truthy (content m)"
    using assms(2,3) by simp
  then show ?thesis by auto
qed

text \<open>
  C10 at a session whose first submission is answered by the empty string: the third
  entry of the history is the assistant's, and its content is not empty.
\<close>

theorem demo_assistant_nonempty:
  "\<exists>h. fst (session None None ((stub_returning (PStr []), Some (ustr ''hi'')) # demo_runs)) = Some h \<and>
        role (h ! 2) = assistant_role \<and> truthy (content (h ! 2)) \<and> content (h ! 2) \<noteq> PStr []"
proof -
  let ?h = "[greeting, user_message (ustr ''hi''), assistant_message (PStr no_content_text),
             user_message (ustr ''hi''), assistant_message (PStr (ustr ''X'')),
             user_message (ustr ''again''), assistant_message (PStr (error_text boom))]"
  have run: "fst (session None None
      ((stub_returning (PStr []), Some (ustr ''hi'')) # demo_runs)) = Some ?h"
    by (simp add: demo_runs_def session_defs run_defs stub_defs ustr_def)
  have "truthy (content (?h ! 2)) \<and> content (?h ! 2) \<noteq> PStr [] \<and> content (?h ! 2) \<noteq> PNone"
    using assistant_content_nonempty [OF run, of "?h ! 2"] by (simp add: assistant_message_def)
  then show ?thesis
    using run by (simp add: assistant_message_def)
qed

subsection \<open>The two ways to build the outbound list\<close>

lemma lc_typed_built:
  assumes "\<forall>m \<in> set h. role m = user_role \<or> role m = assistant_role"
    and "\<forall>m \<in> set h. (role m = user_role \<longrightarrow> human_check mc (content m) = None) \<and>
                      (role m = assistant_role \<longrightarrow> ai_check mc (content m) = None)"
  shows "\<exists>ts. lc_typed mc h = Inr ts \<and> map out_role ts = map role h \<and>
              map out_content ts = map content h"
  using assms by (induction h) auto

lemma lc_fallback_map:
  "map out_role (lc_fallback h) = map role h \<and> map out_content (lc_fallback h) = map content h"
  by (simp add: lc_fallback_def comp_def)

text \<open>
  C8, as the code has it: for a history whose entries all have the role \<open>user\<close> or
  \<open>assistant\<close> and whose contents the message classes accept, both paths build a list;
  the two lists have the length of the history, and at every index both carry the role
  and the content of the history entry at that index.
\<close>

theorem outbound_paths_equivalent:
  assumes roles: "\<forall>m \<in> set h. role m = user_role \<or> role m = assistant_role"
    and accepted: "\<forall>m \<in> set h. (role m = user_role \<longrightarrow> human_check mc (content m) = None) \<and>
                      (role m = assistant_role \<longrightarrow> ai_check mc (content m) = None)"
  shows "\<exists>ts fs. lc_messages (Some mc) h = Inr ts \<and> lc_messages None h = Inr fs \<and>
           length ts = length h \<and> length fs = length h \<and>
           (\<forall>i < length h.
              out_role (ts ! i) = role (h ! i) \<and> out_content (ts ! i) = content (h ! i) \<and>
              out_role (fs ! i) = role (h ! i) \<and> out_content (fs ! i) = content (h ! i))"
proof -
  obtain ts where ts: "lc_typed mc h = Inr ts" "map out_role ts = map role h"
    "map out_content ts = map content h"
    using lc_typed_built [OF roles accepted] by blast
  have f: "map out_role (lc_fallback h) = map role h"
    "map out_content (lc_fallback h) = map content h"
    using lc_fallback_map by simp_all
  have lt: "length ts = length h"
    using ts(2) by (metis length_map)
  have lf: "length (lc_fallback h) = length h"
    by (simp add: lc_fallback_def)
  have "out_role (ts ! i) = role (h ! i) \<and> out_content (ts ! i) = content (h ! i) \<and>
        out_role (lc_fallback h ! i) = role (h ! i) \<and>
        out_content (lc_fallback h ! i) = content (h ! i)"
    if "i < length h" for i
    using that ts(2,3) f lt lf by (metis nth_map)
  then show ?thesis
    using ts(1) lt lf by (simp add: lc_messages_def)
qed

text \<open>C8 at the history of the greeting followed by one user message.\<close>

theorem outbound_paths_demo:
  "\<exists>ts fs. lc_messages (Some strict_classes) [greeting, user_message (ustr ''hi'')] = Inr ts \<and>
     lc_messages None [greeting, user_message (ustr ''hi'')] = Inr fs \<and>
     length ts = 2 \<and> length fs = 2 \<and>
     out_role (ts ! 1) = user_role \<and> out_role (fs ! 1) = user_role \<and>
     out_content (ts ! 1) = PStr (ustr ''hi'') \<and> out_content (fs ! 1) = PStr (ustr ''hi'')"
proof -
  let ?h = "[greeting, user_message (ustr ''hi'')]"
  have roles: "\<forall>m \<in> set ?h. role m = user_role \<or> role m = assistant_role"
    by (simp add: greeting_def user_message_def)
  have accepted: "\<forall>m \<in> set ?h.
      (role m = user_role \<longrightarrow> human_check strict_classes (content m) = None) \<and>
      (role m = assistant_role \<longrightarrow> ai_check strict_classes (content m) = None)"
    by (simp add: greeting_def user_message_def strict_classes_def)
  from outbound_paths_equivalent [OF roles accepted] obtain ts fs where
    "lc_messages (Some strict_classes) ?h = Inr ts" "lc_messages None ?h = Inr fs"
    "length ts = length ?h" "length fs = length ?h"
    "\<forall>i < length ?h. out_role (ts ! i) = role (?h ! i) \<and> out_content (ts ! i) = content (?h ! i) \<and>
       out_role (fs ! i) = role (?h ! i) \<and> out_content (fs ! i) = content (?h ! i)"
    by blast
  then show ?thesis
    by (auto simp: user_message_def)
qed

text \<open>
  C8 as stated fails at a history the session reaches: the graph answers with the
  content \<open>7\<close>, which is truthy and prints, so it is appended; every role is \<open>user\<close> or
  \<open>assistant\<close>, the fallback builds three mappings, and the typed path builds no list,
  because \<open>AIMessage\<close> rejects the content.
\<close>

theorem rejected_content_breaks_typed_path:
  "fst (session (Some strict_classes) None [(stub_returning result_seven, Some (ustr ''hi''))]) =
     Some [greeting, user_message (ustr ''hi''), assistant_message (PInt 7)] \<and>
   role greeting = assistant_role \<and> role (user_message (ustr ''hi'')) = user_role \<and>
   role (assistant_message (PInt 7)) = assistant_role \<and>
   lc_messages (Some strict_classes)
     [greeting, user_message (ustr ''hi''), assistant_message (PInt 7)] =
     Inl (validation_error (ustr ''AIMessage'')) \<and>
   lc_messages None [greeting, user_message (ustr ''hi''), assistant_message (PInt 7)] =
     Inr [DictMessage assistant_role (PStr greeting_text),
          DictMessage user_role (PStr (ustr ''hi'')),
          DictMessage assistant_role (PInt 7)]"
  using seven_small by (simp add: session_defs run_defs stub_defs ustr_def)

section \<open>Properties of the bootstrap loader\<close>





lemmas toy_defs = code_cell_def src_of_def skip_cell_def strip_def is_space_def startswith_def
  assign_src_def raise_src_def drive_src_def drive_input_src_def magic_src_def ustr_def


subsection \<open>Skipped cells\<close>



subsection \<open>The patch\<close>




subsection \<open>The cached result\<close>

lemma cached_again:
  assumes "cache p nb_path = Some r"
  shows "call_n n ex rd d nb_path p = (replicate n (Inr r), p)"
  using assms by (induction n) (simp_all add: bootstrap_notebook_def)

text \<open>
  C9, as the model of the cache has it: when the first call for a path returns, it has
  run the function once, and every further call with that path returns the same pair of
  namespace and log and leaves the process as it was: the environment, the record of
  executed sources and the cache do not change again.
\<close>

theorem bootstrap_runs_once:
  assumes fresh: "cache p nb_path = None"
    and first: "bootstrap_notebook ex rd d nb_path p = (Inr r, p1)"
  shows "(\<exists>p'. bootstrap_body ex rd d nb_path p = (Inr r, p') \<and> executed p1 = executed p' \<and>
               os_environ p1 = os_environ p') \<and>
         call_n n ex rd d nb_path p1 = (replicate n (Inr r), p1)"
proof -
  obtain res p' where body: "bootstrap_body ex rd d nb_path p = (res, p')"
    by (cases "bootstrap_body ex rd d nb_path p")
  from first fresh body have res: "res = Inr r"
    and p1: "p1 = p'\<lparr>cache := (cache p')(nb_path \<mapsto> r)\<rparr>"
    by (cases res; simp add: bootstrap_notebook_def)+
  have "cache p1 nb_path = Some r"
    using p1 by simp
  then have "call_n n ex rd d nb_path p1 = (replicate n (Inr r), p1)"
    by (rule cached_again)
  then show ?thesis
    using body res p1 by simp
qed

text \<open>
  C9 at a notebook of two cells in a fresh process: the first call returns, one source
  was executed, and three more calls return the same pair without executing anything.
\<close>

theorem toy_bootstrap_cached:
  "\<exists>r p1. bootstrap_notebook toy_interp (toy_read [code_cell assign_src, code_cell magic_src])
             (ustr ''data/redfin.csv'') (ustr ''nb.ipynb'') fresh_process = (Inr r, p1) \<and>
          executed p1 = [assign_src] \<and>
          call_n 3 toy_interp (toy_read [code_cell assign_src, code_cell magic_src])
             (ustr ''data/redfin.csv'') (ustr ''nb.ipynb'') p1 = ([Inr r, Inr r, Inr r], p1)"
proof -
  obtain r p1 where first: "bootstrap_notebook toy_interp
      (toy_read [code_cell assign_src, code_cell magic_src])
      (ustr ''data/redfin.csv'') (ustr ''nb.ipynb'') fresh_process = (Inr r, p1)"
    and ex: "executed p1 = [assign_src]"
    by (simp add: bootstrap_notebook_def bootstrap_body_def toy_read_def fresh_process_def
        toy_defs maybe_patch_def patched_source_def toy_interp_def)
  have fresh: "cache fresh_process (ustr ''nb.ipynb'') = None"
    by (simp add: fresh_process_def)
  show ?thesis
    using bootstrap_runs_once [OF fresh first, of 3] first ex by (simp add: numeral_3_eq_3)
qed

lemma raising_cells_run:
  "run_cells toy_interp [code_cell assign_src, code_cell raise_src] s tr =
     (Some boom,
      s\<lparr>globals := with_builtins ((with_builtins (globals s))
                       (ustr ''file_path'' \<mapsto> PStr (ustr ''old.csv'')))\<rparr>,
      tr @ [assign_src, raise_src])"
  by (simp add: toy_defs maybe_patch_def patched_source_def toy_interp_def)

lemma raising_boot:
  assumes "cache p (ustr ''nb.ipynb'') = None"
  shows "bootstrap_notebook toy_interp (toy_read [code_cell assign_src, code_cell raise_src])
           (ustr ''data/redfin.csv'') (ustr ''nb.ipynb'') p =
         (Inl boom, p\<lparr>executed := executed p @ [assign_src, raise_src]\<rparr>)"
  using assms
  by (simp add: bootstrap_notebook_def bootstrap_body_def toy_read_def raising_cells_run
      del: run_cells.simps)

text \<open>
  C9 as stated fails at a notebook whose second cell raises: the call raises, nothing is
  cached, and the second call with the same path executes the cells again, so after two
  calls both cells were executed twice.
\<close>

theorem raising_boot_runs_again:
  "fst (call_n 2 toy_interp (toy_read [code_cell assign_src, code_cell raise_src])
          (ustr ''data/redfin.csv'') (ustr ''nb.ipynb'') fresh_process) = [Inl boom, Inl boom] \<and>
   executed (snd (call_n 2 toy_interp (toy_read [code_cell assign_src, code_cell raise_src])
          (ustr ''data/redfin.csv'') (ustr ''nb.ipynb'') fresh_process)) =
     [assign_src, raise_src, assign_src, raise_src] \<and>
   cache (snd (call_n 2 toy_interp (toy_read [code_cell assign_src, code_cell raise_src])
          (ustr ''data/redfin.csv'') (ustr ''nb.ipynb'') fresh_process)) (ustr ''nb.ipynb'') = None"
proof -
  let ?p1 = "fresh_process\<lparr>executed := executed fresh_process @ [assign_src, raise_src]\<rparr>"
  let ?p2 = "?p1\<lparr>executed := executed ?p1 @ [assign_src, raise_src]\<rparr>"
  have c0: "cache fresh_process (ustr ''nb.ipynb'') = None"
    by (simp add: fresh_process_def)
  have c1: "cache ?p1 (ustr ''nb.ipynb'') = None"
    by (simp add: fresh_process_def)
  have "call_n 2 toy_interp (toy_read [code_cell assign_src, code_cell raise_src])
          (ustr ''data/redfin.csv'') (ustr ''nb.ipynb'') fresh_process = ([Inl boom, Inl boom], ?p2)"
    by (simp only: numeral_2_eq_2 call_n.simps raising_boot [OF c0] raising_boot [OF c1]
        prod.case)
  then show ?thesis
    by (simp add: fresh_process_def)
qed

end
